theory Spec2Isabelle
  imports Complex_Main "HOL-Library.Word" "HOL-Library.Sublist"
begin

section \<open>JavaScript values at the handler boundary\<close>

text \<open>
  A JavaScript string is a sequence of UTF-16 code units. String literals of the source are
  all ASCII; \<open>js\<close> turns an ASCII literal into its code units.
\<close>

type_synonym jsstring = "16 word list"

definition js :: "string \<Rightarrow> jsstring" where
  "js s = map of_char s"

text \<open>
  A number that reaches a handler is an IEEE double: a finite one is a rational, and the
  three special values are kept apart. Only comparison and integrality are used on it.
\<close>

datatype number = Finite rat | PosInfinity | NegInfinity | NaN

datatype json =
    JNull
  | JBool bool
  | JNum number
  | JStr jsstring
  | JArr "json list"
  | JObj "(jsstring \<times> json) list"

text \<open>\<open>request.params\<close>: the capability name and the optional, untyped argument bag.\<close>

record request_params =
  name :: jsstring
  arguments :: "(jsstring \<rightharpoonup> json) option"

record request =
  params :: request_params

subsection \<open>String and array operations used by the handlers\<close>

text \<open>
  \<open>String.prototype.trim\<close> removes WhiteSpace and LineTerminator code points from both
  ends: TAB, LF, VT, FF, CR, SP, NBSP, U+1680, U+2000 to U+200A, U+2028, U+2029, U+202F,
  U+205F, U+3000 and U+FEFF. Each is one code unit.
\<close>

definition isWhiteSpace :: "16 word \<Rightarrow> bool" where
  "isWhiteSpace c \<longleftrightarrow>
     c \<in> {9, 10, 11, 12, 13, 32, 160, 5760, 8232, 8233, 8239, 8287, 12288, 65279}
     \<or> (8192 \<le> c \<and> c \<le> 8202)"

definition trim :: "jsstring \<Rightarrow> jsstring" where
  "trim s = rev (dropWhile isWhiteSpace (rev (dropWhile isWhiteSpace s)))"

text \<open>\<open>s.split("\n")\<close>: the separator is the single code unit 10; the empty string gives one empty piece.\<close>

fun split_nl :: "jsstring \<Rightarrow> jsstring list" where
  "split_nl [] = [[]]"
| "split_nl (c # cs) =
     (if c = 10 then [] # split_nl cs
      else (case split_nl cs of [] \<Rightarrow> [[c]] | l # ls \<Rightarrow> (c # l) # ls))"

text \<open>\<open>xs.join(sep)\<close>: the empty array gives the empty string.\<close>

fun join :: "jsstring \<Rightarrow> jsstring list \<Rightarrow> jsstring" where
  "join sep [] = []"
| "join sep [x] = x"
| "join sep (x # y # ys) = x @ sep @ join sep (y # ys)"

text \<open>
  \<open>String(n)\<close> on an integer: its decimal digits, with a minus sign below zero. (Integers of
  magnitude \<open>10^21\<close> and above print in exponent form in JavaScript; the handler only prints a
  validated count between 1 and 50.)
\<close>

definition digit :: "nat \<Rightarrow> 16 word" where
  "digit d = 48 + of_nat d"

function String_nat :: "nat \<Rightarrow> jsstring" where
  "String_nat n = (if n < 10 then [digit n] else String_nat (n div 10) @ [digit (n mod 10)])"
  by pat_completeness auto
termination
  by (relation "measure id") auto

declare String_nat.simps [simp del]

definition String :: "int \<Rightarrow> jsstring" where
  "String i = (if i < 0 then js ''-'' @ String_nat (nat (- i)) else String_nat (nat i))"

section \<open>Errors and results\<close>

text \<open>An issue of a schema violation as zod reports it: its code and the path of the field.\<close>

datatype zod_issue_code = invalid_type | too_small | too_big

datatype zod_issue = Issue zod_issue_code "jsstring list"

text \<open>
  What \<open>execFile\<close> rejects its promise with: the command could not be started (an errno
  name), it ended with a non-zero status, or a signal ended it.
\<close>

datatype exec_error =
    SpawnFailure jsstring
  | NonZeroExit int jsstring jsstring
  | Killed jsstring

text \<open>
  Everything a handler can throw: its own \<open>Error\<close>, a \<open>ZodError\<close>, an uncaught rejection,
  or the \<open>TypeError\<close> (with its code) of a library call that refuses its arguments.
\<close>

datatype error =
    Error jsstring
  | ZodError "zod_issue list"
  | ExecRejected exec_error
  | TypeError jsstring

text \<open>A content block \<open>{ type: "text", text }\<close>: the tag is the constructor.\<close>

datatype content_block = TextContent jsstring

record prompt_message =
  role :: jsstring
  message_content :: "content_block list"

record get_prompt_result =
  description :: jsstring
  messages :: "prompt_message list"

record call_tool_result =
  content :: "content_block list"

section \<open>The \<open>house_rules\<close> prompt\<close>

definition house_rules_lines :: "jsstring \<Rightarrow> jsstring list" where
  "house_rules_lines mode =
     [ js ''You are my coding assistant.'',
       js '''',
       js ''Operating rules:'',
       js ''1) Prefer safe and reversible actions. Start read-only.'',
       js ''2) Summarize what you plan to do before you do it.'',
       js ''3) Keep scope small. If a task is large, propose the smallest next step.'',
       js ''4) Be explicit. Use checklists and concrete commands.'',
       js ''5) If you are blocked, ask one clarifying question. Otherwise proceed.'',
       js '''',
       js ''Mode: '' @ mode,
       js '''',
       js ''When using tools:'',
       js ''- Explain which tool you are calling and why.'',
       js ''- If a tool can mutate data, confirm intent first.'' ]"

text \<open>\<open>typeof request.params.arguments?.mode === "string" ? ... : "general"\<close>\<close>

definition prompt_mode :: "(jsstring \<rightharpoonup> json) option \<Rightarrow> jsstring" where
  "prompt_mode a =
     (case a of
        None \<Rightarrow> js ''general''
      | Some bag \<Rightarrow>
          (case bag (js ''mode'') of
             Some (JStr m) \<Rightarrow> m
           | _ \<Rightarrow> js ''general''))"

text \<open>The arrow function given to \<open>setRequestHandler\<close> at \<open>index.ts:53\<close>: the handler body.\<close>

definition GetPrompt :: "request \<Rightarrow> error + get_prompt_result" where
  "GetPrompt request =
     (if name (params request) \<noteq> js ''house_rules''
      then Inl (Error (js ''Unknown prompt: '' @ name (params request)))
      else
        let mode = prompt_mode (arguments (params request));
            text = join (js [CHR 0x0A]) (house_rules_lines mode)
        in Inr \<lparr> description = js ''My reusable assistant rules'',
                 messages = [ \<lparr> role = js ''user'',
                                message_content = [ TextContent text ] \<rparr> ] \<rparr>)"

subsection \<open>The request schema in front of the handler\<close>

text \<open>
  \<open>server.setRequestHandler(GetPromptRequestSchema, handler)\<close> does not install the arrow
  function alone: the server parses every incoming request with the schema and calls the
  handler on the parsed request, and a request the schema refuses never reaches the body.
  \<open>GetPromptRequestSchema\<close> comes from the SDK; its \<open>params\<close> are \<open>name: z.string()\<close> and
  \<open>arguments: z.optional(z.record(z.string()))\<close>. The incoming argument bag is a JSON
  object, given here by its own keys in order; a record schema visits every key and reports
  each value that is not a string at the path \<open>params.arguments.<key>\<close>.
\<close>

definition argument_issue :: "jsstring \<times> json \<Rightarrow> zod_issue list" where
  "argument_issue kv =
     (case snd kv of
        JStr _ \<Rightarrow> []
      | _ \<Rightarrow> [Issue invalid_type [js ''params'', js ''arguments'', fst kv]])"

definition GetPromptRequestSchema_parse ::
  "jsstring \<Rightarrow> (jsstring \<times> json) list option \<Rightarrow> error + request" where
  "GetPromptRequestSchema_parse n a =
     (case a of
        None \<Rightarrow> Inr \<lparr> params = \<lparr> name = n, arguments = None \<rparr> \<rparr>
      | Some kvs \<Rightarrow>
          (let issues = concat (map argument_issue kvs)
           in if issues = []
              then Inr \<lparr> params = \<lparr> name = n, arguments = Some (map_of kvs) \<rparr> \<rparr>
              else Inl (ZodError issues)))"

text \<open>What the server does with a \<open>prompts/get\<close> request: parse, then the handler body.\<close>

definition prompts_get ::
  "jsstring \<Rightarrow> (jsstring \<times> json) list option \<Rightarrow> error + get_prompt_result" where
  "prompts_get n a =
     (case GetPromptRequestSchema_parse n a of
        Inl e \<Rightarrow> Inl e
      | Inr request \<Rightarrow> GetPrompt request)"

section \<open>The \<open>git_context\<close> tool\<close>

text \<open>
  The tool handler is installed with \<open>CallToolRequestSchema\<close>, whose \<open>arguments\<close> are
  \<open>z.optional(z.record(z.unknown()))\<close>: any bag passes, so the handler body receives the
  bag as it was sent.
\<close>

subsection \<open>Argument validation\<close>

text \<open>
  \<open>GitContextSchema\<close> is a zod object schema. An object schema visits its own keys in
  declaration order, gathers the issues of every key, and drops the keys it does not declare.
  \<open>parse\<close> throws a \<open>ZodError\<close> holding the issues when there is one.
\<close>

record git_context_args =
  repoPath :: jsstring
  maxCommits :: int

text \<open>\<open>z.string().min(1)\<close>; an absent key is \<open>undefined\<close>, which is not a string.\<close>

definition parse_repoPath :: "json option \<Rightarrow> zod_issue list + jsstring" where
  "parse_repoPath v =
     (case v of
        Some (JStr s) \<Rightarrow>
          (if length s < 1 then Inl [Issue too_small [js ''repoPath'']] else Inr s)
      | _ \<Rightarrow> Inl [Issue invalid_type [js ''repoPath'']])"

definition isInteger :: "rat \<Rightarrow> bool" where
  "isInteger q \<longleftrightarrow> of_int \<lfloor>q\<rfloor> = q"

text \<open>
  \<open>z.number().int().min(1).max(50)\<close>: a value that is not a number, or is NaN, has the wrong
  type; on a number each of the three checks adds its own issue.
\<close>

definition parse_count :: "json \<Rightarrow> zod_issue list + int" where
  "parse_count v =
     (let p = [js ''maxCommits''] in
      case v of
        JNum (Finite q) \<Rightarrow>
          (let issues =
                 (if isInteger q then [] else [Issue invalid_type p])
               @ (if q < 1 then [Issue too_small p] else [])
               @ (if q > 50 then [Issue too_big p] else [])
           in if issues = [] then Inr \<lfloor>q\<rfloor> else Inl issues)
      | JNum PosInfinity \<Rightarrow> Inl [Issue invalid_type p, Issue too_big p]
      | JNum NegInfinity \<Rightarrow> Inl [Issue invalid_type p, Issue too_small p]
      | _ \<Rightarrow> Inl [Issue invalid_type p])"

text \<open>\<open>.default(15)\<close>: an absent key takes the default, which then goes through the same checks.\<close>

definition parse_maxCommits :: "json option \<Rightarrow> zod_issue list + int" where
  "parse_maxCommits v =
     (case v of
        None \<Rightarrow> parse_count (JNum (Finite 15))
      | Some x \<Rightarrow> parse_count x)"

definition issues_of :: "zod_issue list + 'a \<Rightarrow> zod_issue list" where
  "issues_of r = (case r of Inl xs \<Rightarrow> xs | Inr _ \<Rightarrow> [])"

definition GitContextSchema_parse :: "(jsstring \<rightharpoonup> json) option \<Rightarrow> error + git_context_args" where
  "GitContextSchema_parse a =
     (case a of
        None \<Rightarrow> Inl (ZodError [Issue invalid_type []])
      | Some bag \<Rightarrow>
          (let r = parse_repoPath (bag (js ''repoPath''));
               m = parse_maxCommits (bag (js ''maxCommits''))
           in case (r, m) of
                (Inr p, Inr n) \<Rightarrow> Inr \<lparr> repoPath = p, maxCommits = n \<rparr>
              | _ \<Rightarrow> Inl (ZodError (issues_of r @ issues_of m))))"

subsection \<open>External processes\<close>

text \<open>
  \<open>execFileAsync(file, args)\<close> hands \<open>file\<close> and the argument vector \<open>args\<close> to
  \<open>execFile\<close>. The call has three outcomes: it gives a promise that is fulfilled with the
  captured output, it gives a promise that is rejected, or \<open>execFile\<close> refuses the arguments
  and throws at once, so that no promise exists and no process runs. Which one happens is the
  runtime's and the environment's business: \<open>run\<close> answers an invocation in a world and gives
  the next world. Every invocation the handler asks for is appended to \<open>spawned\<close>, a refused
  one included.
\<close>

record invocation =
  program :: jsstring
  args :: "jsstring list"

record exec_output =
  stdout :: jsstring
  stderr :: jsstring

datatype exec_outcome = Fulfilled exec_output | Rejected exec_error | Throws jsstring

type_synonym 'w invoker = "invocation \<Rightarrow> 'w \<Rightarrow> exec_outcome \<times> 'w"

record 'w process_state =
  world :: 'w
  spawned :: "invocation list"

definition execFileAsync ::
  "'w invoker \<Rightarrow> jsstring \<Rightarrow> jsstring list \<Rightarrow> 'w process_state \<Rightarrow> exec_outcome \<times> 'w process_state" where
  "execFileAsync run f as s =
     (let i = \<lparr> program = f, args = as \<rparr>;
          (r, w) = run i (world s)
      in (r, \<lparr> world = w, spawned = spawned s @ [i] \<rparr>))"

text \<open>
  Node's \<open>execFile\<close> checks its arguments before it starts anything: when the file name or
  one of the arguments holds the code unit 0, it throws a \<open>TypeError\<close> with the code
  \<open>ERR_INVALID_ARG_VALUE\<close>. \<open>node_execFile base\<close> is that check in front of an environment
  \<open>base\<close>.
\<close>

definition hasNullByte :: "jsstring \<Rightarrow> bool" where
  "hasNullByte x \<longleftrightarrow> 0 \<in> set x"

definition node_execFile :: "'w invoker \<Rightarrow> 'w invoker" where
  "node_execFile base i w =
     (if hasNullByte (program i) \<or> list_ex hasNullByte (args i)
      then (Throws (js ''ERR_INVALID_ARG_VALUE''), w)
      else base i w)"

subsection \<open>The handler\<close>

definition probe_args :: "jsstring \<Rightarrow> jsstring list" where
  "probe_args p = [js ''-C'', p, js ''rev-parse'', js ''--is-inside-work-tree'']"

definition branch_args :: "jsstring \<Rightarrow> jsstring list" where
  "branch_args p = [js ''-C'', p, js ''rev-parse'', js ''--abbrev-ref'', js ''HEAD'']"

definition commits_args :: "jsstring \<Rightarrow> int \<Rightarrow> jsstring list" where
  "commits_args p n = [js ''-C'', p, js ''log'', js ''-n'', String n, js ''--pretty=format:%h %s'']"

definition diffstat_args :: "jsstring \<Rightarrow> jsstring list" where
  "diffstat_args p = [js ''-C'', p, js ''show'', js ''--stat'', js ''--oneline'', js ''-1'']"

text \<open>
  \<open>.then((r) => r.stdout.trim() === "true").catch(() => false)\<close> works on the promise: it
  maps a fulfilled probe to the comparison and a rejected one to \<open>false\<close>. A call that threw
  gave no promise to attach to; the handler deals with that case before it gets here.
\<close>

definition isRepo_of :: "exec_outcome \<Rightarrow> bool" where
  "isRepo_of r =
     (case r of
        Fulfilled out \<Rightarrow> trim (stdout out) = js ''true''
      | Rejected _ \<Rightarrow> False
      | Throws _ \<Rightarrow> False)"

text \<open>\<open>commits ? commits.split("\n").map((l) => `- ${l}`).join("\n") : "- None"\<close>\<close>

definition commit_bullets :: "jsstring \<Rightarrow> jsstring" where
  "commit_bullets commits =
     (if commits \<noteq> [] then join (js [CHR 0x0A]) (map (\<lambda>l. js ''- '' @ l) (split_nl commits))
      else js ''- None'')"

definition payload :: "jsstring \<Rightarrow> jsstring \<Rightarrow> jsstring \<Rightarrow> jsstring" where
  "payload branch commits diffstat =
     join (js [CHR 0x0A])
       [ js ''# Repo Context'',
         js ''- Branch: '' @ branch,
         js '''',
         js ''## Recent commits'',
         commit_bullets commits,
         js '''',
         js ''## Latest commit diffstat'',
         js ''```'',
         diffstat,
         js ''```'' ]"

definition CallTool ::
  "'w invoker \<Rightarrow> request \<Rightarrow> 'w process_state \<Rightarrow> (error + call_tool_result) \<times> 'w process_state" where
  "CallTool run request s =
     (if name (params request) \<noteq> js ''git_context''
      then (Inl (Error (js ''Unknown tool: '' @ name (params request))), s)
      else
        case GitContextSchema_parse (arguments (params request)) of
          Inl e \<Rightarrow> (Inl e, s)
        | Inr a \<Rightarrow>
            (let (r0, s0) = execFileAsync run (js ''git'') (probe_args (repoPath a)) s in
             case r0 of
               Throws c \<Rightarrow> (Inl (TypeError c), s0)
             | _ \<Rightarrow>
             if \<not> isRepo_of r0
             then (Inr \<lparr> content = [TextContent (js ''Not a git repository: '' @ repoPath a)] \<rparr>, s0)
             else
               case execFileAsync run (js ''git'') (branch_args (repoPath a)) s0 of
                 (Throws c, s1) \<Rightarrow> (Inl (TypeError c), s1)
               | (Rejected e, s1) \<Rightarrow> (Inl (ExecRejected e), s1)
               | (Fulfilled r1, s1) \<Rightarrow>
                   (case execFileAsync run (js ''git'') (commits_args (repoPath a) (maxCommits a)) s1 of
                      (Throws c, s2) \<Rightarrow> (Inl (TypeError c), s2)
                    | (Rejected e, s2) \<Rightarrow> (Inl (ExecRejected e), s2)
                    | (Fulfilled r2, s2) \<Rightarrow>
                        (case execFileAsync run (js ''git'') (diffstat_args (repoPath a)) s2 of
                           (Throws c, s3) \<Rightarrow> (Inl (TypeError c), s3)
                         | (Rejected e, s3) \<Rightarrow> (Inl (ExecRejected e), s3)
                         | (Fulfilled r3, s3) \<Rightarrow>
                             (Inr \<lparr> content =
                                      [TextContent
                                         (payload (trim (stdout r1)) (trim (stdout r2)) (trim (stdout r3)))] \<rparr>,
                              s3)))))"

section \<open>Requests used in the statements\<close>

abbreviation tool_request :: "(jsstring \<rightharpoonup> json) option \<Rightarrow> request" where
  "tool_request a \<equiv> \<lparr> params = \<lparr> name = js ''git_context'', arguments = a \<rparr> \<rparr>"

abbreviation prompt_request :: "(jsstring \<rightharpoonup> json) option \<Rightarrow> request" where
  "prompt_request a \<equiv> \<lparr> params = \<lparr> name = js ''house_rules'', arguments = a \<rparr> \<rparr>"

abbreviation prompt_reply :: "jsstring \<Rightarrow> get_prompt_result" where
  "prompt_reply t \<equiv>
     \<lparr> description = js ''My reusable assistant rules'',
       messages = [ \<lparr> role = js ''user'', message_content = [TextContent t] \<rparr> ] \<rparr>"

section \<open>Strings: splitting and joining\<close>

lemma nl_code_unit: "js [CHR 0x0A] = [10]"
  by (simp add: js_def)


lemma split_nl_no_newline: "10 \<notin> set x \<Longrightarrow> split_nl x = [x]"
  by (induction x) auto

lemma split_nl_append: "10 \<notin> set x \<Longrightarrow> split_nl (x @ 10 # r) = x # split_nl r"
  by (induction x) auto

lemma split_nl_join:
  "xs \<noteq> [] \<Longrightarrow> \<forall>x\<in>set xs. 10 \<notin> set x \<Longrightarrow> split_nl (join [10] xs) = xs"
  by (induction "[10::16 word]" xs rule: join.induct)
     (auto simp: split_nl_no_newline split_nl_append)

lemma join_append:
  "xs \<noteq> [] \<Longrightarrow> ys \<noteq> [] \<Longrightarrow> join sep (xs @ ys) = join sep xs @ sep @ join sep ys"
proof (induction sep xs rule: join.induct)
  case (1 sep)
  then show ?case by simp
next
  case (2 sep x)
  then show ?case by (cases ys) auto
next
  case (3 sep x y zs)
  then show ?case by simp
qed

lemma join_Cons: "ys \<noteq> [] \<Longrightarrow> join sep (x # ys) = x @ sep @ join sep ys"
  by (cases ys) auto

section \<open>Validation: evaluation lemmas\<close>

lemma js_neq_keys: "js ''maxCommits'' \<noteq> js ''repoPath''"
  by (simp add: js_def)

lemma parse_count_default: "parse_count (JNum (Finite 15)) = Inr 15"
  by (simp add: parse_count_def isInteger_def)

lemma parse_default_count:
  "bag (js ''repoPath'') = Some (JStr p) \<Longrightarrow> p \<noteq> [] \<Longrightarrow> bag (js ''maxCommits'') = None \<Longrightarrow>
   GitContextSchema_parse (Some bag) = Inr \<lparr> repoPath = p, maxCommits = 15 \<rparr>"
  by (simp add: GitContextSchema_parse_def parse_repoPath_def parse_maxCommits_def
        parse_count_default)

lemma parse_count_invalid:
  "\<forall>q. v = JNum (Finite q) \<longrightarrow> \<not> isInteger q \<or> q < 1 \<or> 50 < q \<Longrightarrow>
   \<exists>xs. xs \<noteq> [] \<and> parse_count v = Inl xs"
proof (cases v)
  case (JNum n)
  assume inv: "\<forall>q. v = JNum (Finite q) \<longrightarrow> \<not> isInteger q \<or> q < 1 \<or> 50 < q"
  show ?thesis
  proof (cases n)
    case (Finite q)
    with JNum inv have "\<not> isInteger q \<or> q < 1 \<or> 50 < q" by simp
    with JNum Finite show ?thesis by (auto simp: parse_count_def Let_def)
  qed (simp_all add: JNum parse_count_def Let_def)
qed (simp_all add: parse_count_def)

lemma schema_rejects_count:
  assumes "parse_maxCommits (bag (js ''maxCommits'')) = Inl xs" and "xs \<noteq> []"
  shows "\<exists>issues. issues \<noteq> [] \<and> GitContextSchema_parse (Some bag) = Inl (ZodError issues)"
  using assms
  by (cases "parse_repoPath (bag (js ''repoPath''))")
     (simp_all add: GitContextSchema_parse_def issues_of_def)

lemma schema_rejects_path:
  assumes "parse_repoPath (bag (js ''repoPath'')) = Inl xs"
  shows "GitContextSchema_parse (Some bag)
         = Inl (ZodError (xs @ issues_of (parse_maxCommits (bag (js ''maxCommits'')))))"
  using assms by (simp add: GitContextSchema_parse_def issues_of_def)

lemma parse_restrict:
  "GitContextSchema_parse (Some (bag |` {js ''repoPath'', js ''maxCommits''}))
   = GitContextSchema_parse (Some bag)"
  by (simp add: GitContextSchema_parse_def)

lemma not_integer_half: "\<not> isInteger (5 / 2)"
proof -
  have "\<lfloor>5 / 2 :: rat\<rfloor> = 2" by (rule floor_unique) simp_all
  then show ?thesis by (simp add: isInteger_def)
qed

lemma String_15: "String 15 = js ''15''"
  by (simp add: String_def String_nat.simps digit_def js_def)

section \<open>Running the handler: evaluation lemmas\<close>

lemma exec_outcome_fst:
  "execFileAsync run f as s =
     (fst (run \<lparr>program = f, args = as\<rparr> (world s)),
      \<lparr> world = snd (run \<lparr>program = f, args = as\<rparr> (world s)),
        spawned = spawned s @ [\<lparr>program = f, args = as\<rparr>] \<rparr>)"
  by (simp add: execFileAsync_def split_beta Let_def)

lemma CallTool_invalid:
  "GitContextSchema_parse a = Inl e \<Longrightarrow> CallTool run (tool_request a) s = (Inl e, s)"
  by (simp add: CallTool_def)

lemma CallTool_rejects_count:
  assumes "\<forall>q. v = JNum (Finite q) \<longrightarrow> \<not> isInteger q \<or> q < 1 \<or> 50 < q"
  shows "\<exists>issues. issues \<noteq> [] \<and>
           CallTool run (tool_request (Some (bag(js ''maxCommits'' \<mapsto> v)))) s
           = (Inl (ZodError issues), s)"
proof -
  let ?bag = "bag(js ''maxCommits'' \<mapsto> v)"
  obtain xs where xs: "xs \<noteq> []" "parse_count v = Inl xs"
    using parse_count_invalid [OF assms] by blast
  then have "parse_maxCommits (?bag (js ''maxCommits'')) = Inl xs"
    by (simp add: parse_maxCommits_def)
  from schema_rejects_count [of ?bag, OF this xs(1)] show ?thesis
    by (auto simp: CallTool_invalid)
qed

lemma trim_true_line: "trim (js ''true'' @ [10]) = js ''true''"
  by (simp add: trim_def isWhiteSpace_def js_def)

lemma CallTool_result_world_independent:
  assumes "\<forall>i w w'. fst (run i w) = fst (run i w')"
  shows "fst (CallTool run request s) = fst (CallTool run request s')"
proof -
  define ans where "ans i = fst (run i undefined)" for i
  have ans: "\<And>i w. fst (run i w) = ans i"
    using assms by (simp add: ans_def)
  show ?thesis
    by (simp add: CallTool_def exec_outcome_fst ans Let_def
             split: sum.split exec_outcome.split)
qed





section \<open>The prompt: evaluation lemmas\<close>

lemma GetPrompt_house_rules:
  "GetPrompt (prompt_request a)
   = Inr (prompt_reply (join [10] (house_rules_lines (prompt_mode a))))"
  by (simp add: GetPrompt_def nl_code_unit)

lemma house_rules_lines_no_newline:
  "10 \<notin> set m \<Longrightarrow> \<forall>x\<in>set (house_rules_lines m). 10 \<notin> set x"
  by (simp add: house_rules_lines_def js_def)

lemma house_rules_split:
  "10 \<notin> set m \<Longrightarrow> split_nl (join [10] (house_rules_lines m)) = house_rules_lines m"
  by (rule split_nl_join)
     (simp_all add: house_rules_lines_no_newline, simp add: house_rules_lines_def)

lemma mode_line_present:
  "10 \<notin> set m \<Longrightarrow> js ''Mode: '' @ m \<in> set (split_nl (join [10] (house_rules_lines m)))"
  by (simp add: house_rules_split) (simp add: house_rules_lines_def)

lemma house_rules_text_shape:
  "join [10] (house_rules_lines m) =
     join [10] (take 9 (house_rules_lines [])) @ [10] @ js ''Mode: '' @ m @ [10]
     @ join [10] (drop 10 (house_rules_lines []))"
  by (simp add: house_rules_lines_def)

lemma general_no_newline: "10 \<notin> set (js ''general'')"
  by (simp add: js_def)

lemma review_no_newline: "10 \<notin> set (js ''review'')"
  by (simp add: js_def)

lemma mode_general: "js ''Mode: '' @ js ''general'' = js ''Mode: general''"
  by (simp add: js_def)

lemma mode_review: "js ''Mode: '' @ js ''review'' = js ''Mode: review''"
  by (simp add: js_def)

lemma prompt_mode_empty: "prompt_mode (Some Map.empty) = js ''general''"
  by (simp add: prompt_mode_def)

lemma prompt_mode_string: "prompt_mode (Some (bag(js ''mode'' \<mapsto> JStr m))) = m"
  by (simp add: prompt_mode_def)

section \<open>The probe\<close>

text \<open>
  For a probe that gave a promise, the guard works as written: a rejected promise, or a
  fulfilled one whose trimmed output is not \<open>true\<close>, gives the content result, and the probe
  is the only invocation asked for.
\<close>

lemma settled_probe_negative_is_soft_outcome:
  assumes "name (params request) = js ''git_context''"
    and "GitContextSchema_parse (arguments (params request)) = Inr a"
    and "run \<lparr> program = js ''git'',
               args = [js ''-C'', repoPath a, js ''rev-parse'', js ''--is-inside-work-tree''] \<rparr>
             (world s) = (r, w)"
    and "\<forall>c. r \<noteq> Throws c"
    and "\<forall>out. r = Fulfilled out \<longrightarrow> trim (stdout out) \<noteq> js ''true''"
  shows "CallTool run request s =
           (Inr \<lparr> content = [TextContent (js ''Not a git repository: '' @ repoPath a)] \<rparr>,
            \<lparr> world = w,
              spawned = spawned s @
                [\<lparr> program = js ''git'',
                   args = [js ''-C'', repoPath a, js ''rev-parse'',
                           js ''--is-inside-work-tree''] \<rparr>] \<rparr>)"
proof -
  have "\<not> isRepo_of r"
    using assms(5) by (cases r) (simp_all add: isRepo_of_def)
  then show ?thesis
    using assms(1,2,3,4)
    by (cases r) (simp_all add: CallTool_def probe_args_def execFileAsync_def)
qed

lemma null_byte_path_validates:
  "hasNullByte p \<Longrightarrow>
   GitContextSchema_parse (Some [js ''repoPath'' \<mapsto> JStr p])
   = Inr \<lparr> repoPath = p, maxCommits = 15 \<rparr>"
  by (rule parse_default_count) (auto simp: hasNullByte_def js_neq_keys)

lemma probe_refused_by_node:
  assumes "name (params request) = js ''git_context''"
    and "GitContextSchema_parse (arguments (params request)) = Inr a"
    and "hasNullByte (repoPath a)"
  shows "CallTool (node_execFile base) request s =
           (Inl (TypeError (js ''ERR_INVALID_ARG_VALUE'')),
            \<lparr> world = world s,
              spawned = spawned s @
                [\<lparr> program = js ''git'',
                   args = [js ''-C'', repoPath a, js ''rev-parse'',
                           js ''--is-inside-work-tree''] \<rparr>] \<rparr>)"
  using assms
  by (simp add: CallTool_def probe_args_def execFileAsync_def node_execFile_def)

text \<open>
  C1. The claim is that a probe which fails to launch, throws, or reports anything but a
  positive answer gives the content result \<open>Not a git repository\<close>. The guard at
  \<open>index.ts:129-136\<close> attaches \<open>.catch(() => false)\<close> to the promise only. The path
  \<open>/tmp/a\<close>, U+0000, \<open>b\<close> passes \<open>z.string().min(1)\<close>; with it \<open>execFile\<close> throws before a
  promise exists, and the handler throws the \<open>TypeError\<close> instead of returning content,
  whatever the environment would have answered.
\<close>

theorem probe_sync_throw_escapes_catch:
  "CallTool (node_execFile (\<lambda>i w. (Rejected (NonZeroExit 128 [] (js ''fatal: not a git repository'')), w)))
     (tool_request (Some [js ''repoPath'' \<mapsto> JStr (js ''/tmp/a'' @ [0] @ js ''b'')]))
     \<lparr> world = (), spawned = [] \<rparr>
   = (Inl (TypeError (js ''ERR_INVALID_ARG_VALUE'')),
      \<lparr> world = (),
        spawned = [\<lparr> program = js ''git'',
                     args = [js ''-C'', js ''/tmp/a'' @ [0] @ js ''b'', js ''rev-parse'',
                             js ''--is-inside-work-tree''] \<rparr>] \<rparr>)"
proof -
  let ?p = "js ''/tmp/a'' @ [0] @ js ''b''"
  let ?req = "tool_request (Some [js ''repoPath'' \<mapsto> JStr ?p])"
  let ?a = "\<lparr> repoPath = ?p, maxCommits = 15 \<rparr>"
  have nul: "hasNullByte ?p"
    by (simp add: hasNullByte_def)
  have h1: "name (params ?req) = js ''git_context''"
    by simp
  have h2: "GitContextSchema_parse (arguments (params ?req)) = Inr ?a"
    using null_byte_path_validates [OF nul] by simp
  have h3: "hasNullByte (repoPath ?a)"
    using nul by simp
  from probe_refused_by_node
         [where request = ?req and a = ?a
            and base = "\<lambda>(i::invocation) (w::unit).
                          (Rejected (NonZeroExit 128 [] (js ''fatal: not a git repository'')), w)"
            and s = "\<lparr> world = (), spawned = [] \<rparr>", OF h1 h2 h3]
  show ?thesis
    by simp
qed

section \<open>Validation comes first\<close>

text \<open>
  C2. The count \<open>maxCommits\<close> is checked before any process is started. Whatever else the bag
  holds, a value that is not an integer number between 1 and 50 (in particular 0 and 51)
  makes the call throw a \<open>ZodError\<close> with at least one issue, and the process state is
  untouched: nothing was spawned. With the key absent and a valid path, validation yields the
  count 15, and once the probe and the branch invocation have succeeded, the third process
  started is \<open>git -C <path> log -n 15 --pretty=format:%h %s\<close>.
\<close>

theorem maxCommits_validated_before_any_process:
  "((\<forall>q. v = JNum (Finite q) \<longrightarrow> \<not> isInteger q \<or> q < 1 \<or> 50 < q) \<longrightarrow>
      (\<exists>issues. issues \<noteq> [] \<and>
         CallTool run (tool_request (Some (bag(js ''maxCommits'' \<mapsto> v)))) s
         = (Inl (ZodError issues), s)))
   \<and> (\<exists>issues. issues \<noteq> [] \<and>
         CallTool run (tool_request (Some (bag(js ''maxCommits'' \<mapsto> JNum (Finite 0))))) s
         = (Inl (ZodError issues), s))
   \<and> (\<exists>issues. issues \<noteq> [] \<and>
         CallTool run (tool_request (Some (bag(js ''maxCommits'' \<mapsto> JNum (Finite 51))))) s
         = (Inl (ZodError issues), s))
   \<and> (bag (js ''repoPath'') = Some (JStr p) \<and> p \<noteq> [] \<longrightarrow>
        GitContextSchema_parse (Some (bag(js ''maxCommits'' := None)))
        = Inr \<lparr> repoPath = p, maxCommits = 15 \<rparr>)
   \<and> (bag (js ''repoPath'') = Some (JStr p) \<and> p \<noteq> [] \<and>
      run \<lparr> program = js ''git'',
            args = [js ''-C'', p, js ''rev-parse'', js ''--is-inside-work-tree''] \<rparr>
          (world s) = (Fulfilled out0, w0) \<and>
      trim (stdout out0) = js ''true'' \<and>
      run \<lparr> program = js ''git'',
            args = [js ''-C'', p, js ''rev-parse'', js ''--abbrev-ref'', js ''HEAD''] \<rparr>
          w0 = (Fulfilled out1, w1) \<longrightarrow>
        (drop (length (spawned s))
           (spawned (snd (CallTool run (tool_request (Some (bag(js ''maxCommits'' := None)))) s))))
          ! 2
        = \<lparr> program = js ''git'',
            args = [js ''-C'', p, js ''log'', js ''-n'', js ''15'',
                    js ''--pretty=format:%h %s''] \<rparr>)"
proof (intro conjI impI)
  assume "\<forall>q. v = JNum (Finite q) \<longrightarrow> \<not> isInteger q \<or> q < 1 \<or> 50 < q"
  then show "\<exists>issues. issues \<noteq> [] \<and>
         CallTool run (tool_request (Some (bag(js ''maxCommits'' \<mapsto> v)))) s
         = (Inl (ZodError issues), s)"
    by (rule CallTool_rejects_count)
next
  show "\<exists>issues. issues \<noteq> [] \<and>
         CallTool run (tool_request (Some (bag(js ''maxCommits'' \<mapsto> JNum (Finite 0))))) s
         = (Inl (ZodError issues), s)"
    by (rule CallTool_rejects_count) simp
next
  show "\<exists>issues. issues \<noteq> [] \<and>
         CallTool run (tool_request (Some (bag(js ''maxCommits'' \<mapsto> JNum (Finite 51))))) s
         = (Inl (ZodError issues), s)"
    by (rule CallTool_rejects_count) simp
next
  assume "bag (js ''repoPath'') = Some (JStr p) \<and> p \<noteq> []"
  then show "GitContextSchema_parse (Some (bag(js ''maxCommits'' := None)))
        = Inr \<lparr> repoPath = p, maxCommits = 15 \<rparr>"
    by (simp add: parse_default_count js_neq_keys [symmetric])
next
  assume h: "bag (js ''repoPath'') = Some (JStr p) \<and> p \<noteq> [] \<and>
      run \<lparr> program = js ''git'',
            args = [js ''-C'', p, js ''rev-parse'', js ''--is-inside-work-tree''] \<rparr>
          (world s) = (Fulfilled out0, w0) \<and>
      trim (stdout out0) = js ''true'' \<and>
      run \<lparr> program = js ''git'',
            args = [js ''-C'', p, js ''rev-parse'', js ''--abbrev-ref'', js ''HEAD''] \<rparr>
          w0 = (Fulfilled out1, w1)"
  then have parse: "GitContextSchema_parse (Some (bag(js ''maxCommits'' := None)))
        = Inr \<lparr> repoPath = p, maxCommits = 15 \<rparr>"
    by (simp add: parse_default_count js_neq_keys [symmetric])
  have "isRepo_of (Fulfilled out0)"
    using h by (simp add: isRepo_of_def)
  then show "(drop (length (spawned s))
           (spawned (snd (CallTool run (tool_request (Some (bag(js ''maxCommits'' := None)))) s))))
          ! 2
        = \<lparr> program = js ''git'',
            args = [js ''-C'', p, js ''log'', js ''-n'', js ''15'',
                    js ''--pretty=format:%h %s''] \<rparr>"
    using h parse
    by (simp add: CallTool_def exec_outcome_fst probe_args_def branch_args_def
          commits_args_def diffstat_args_def String_15 nth_append
          split: exec_outcome.split prod.split)
qed

theorem maxCommits_validated_before_any_process_witness:
  "(\<exists>issues. issues \<noteq> [] \<and>
      CallTool (\<lambda>i w. (Fulfilled \<lparr> stdout = js ''true'' @ [10], stderr = [] \<rparr>, Suc w))
        (tool_request (Some ([js ''repoPath'' \<mapsto> JStr (js ''/repo'')]
                               (js ''maxCommits'' \<mapsto> JNum (Finite (5 / 2))))))
        \<lparr> world = 0, spawned = [] \<rparr>
      = (Inl (ZodError issues), \<lparr> world = 0, spawned = [] \<rparr>))
   \<and> GitContextSchema_parse
        (Some ([js ''repoPath'' \<mapsto> JStr (js ''/repo'')](js ''maxCommits'' := None)))
      = Inr \<lparr> repoPath = js ''/repo'', maxCommits = 15 \<rparr>
   \<and> (drop (length (spawned \<lparr> world = 0::nat, spawned = [] \<rparr>))
        (spawned (snd (CallTool
           (\<lambda>i w. (Fulfilled \<lparr> stdout = js ''true'' @ [10], stderr = [] \<rparr>, Suc w))
           (tool_request (Some ([js ''repoPath'' \<mapsto> JStr (js ''/repo'')]
                                  (js ''maxCommits'' := None))))
           \<lparr> world = 0, spawned = [] \<rparr>)))) ! 2
      = \<lparr> program = js ''git'',
          args = [js ''-C'', js ''/repo'', js ''log'', js ''-n'', js ''15'',
                  js ''--pretty=format:%h %s''] \<rparr>"
proof -
  let ?run = "\<lambda>(i::invocation) (w::nat).
                (Fulfilled \<lparr> stdout = js ''true'' @ [10], stderr = [] \<rparr>, Suc w)"
  let ?bag = "[js ''repoPath'' \<mapsto> JStr (js ''/repo'')]"
  let ?s = "\<lparr> world = 0::nat, spawned = [] \<rparr>"
  let ?out = "\<lparr> stdout = js ''true'' @ [10], stderr = [] \<rparr>"
  have hv: "\<forall>q. JNum (Finite (5 / 2)) = JNum (Finite q) \<longrightarrow> \<not> isInteger q \<or> q < 1 \<or> 50 < q"
  proof (intro allI impI)
    fix q :: rat
    assume "JNum (Finite (5 / 2)) = JNum (Finite q)"
    then have "q = 5 / 2" by (simp only: json.inject number.inject)
    then show "\<not> isInteger q \<or> q < 1 \<or> 50 < q"
      using not_integer_half by (simp only: simp_thms)
  qed
  have hp: "?bag (js ''repoPath'') = Some (JStr (js ''/repo'')) \<and> js ''/repo'' \<noteq> []"
    by (simp add: js_def)
  have hr: "?bag (js ''repoPath'') = Some (JStr (js ''/repo'')) \<and> js ''/repo'' \<noteq> [] \<and>
      ?run \<lparr> program = js ''git'',
            args = [js ''-C'', js ''/repo'', js ''rev-parse'', js ''--is-inside-work-tree''] \<rparr>
          (world ?s) = (Fulfilled ?out, 1) \<and>
      trim (stdout ?out) = js ''true'' \<and>
      ?run \<lparr> program = js ''git'',
            args = [js ''-C'', js ''/repo'', js ''rev-parse'', js ''--abbrev-ref'', js ''HEAD''] \<rparr>
          1 = (Fulfilled ?out, 2)"
    using hp by (simp add: trim_true_line)
  note T = maxCommits_validated_before_any_process
             [where v = "JNum (Finite (5 / 2))" and run = ?run and bag = ?bag and s = ?s
                and p = "js ''/repo''" and ?out0.0 = ?out and ?w0.0 = 1 and ?out1.0 = ?out
                and ?w1.0 = 2]
  show ?thesis
    using T hv hp hr by blast
qed

text \<open>
  C10. An empty \<open>repoPath\<close>, although a string, fails validation: whatever else the bag
  holds, the call throws a \<open>ZodError\<close> whose first issue is \<open>too_small\<close> at \<open>repoPath\<close>, and
  the process state is untouched, so no process was started.
\<close>

theorem empty_repoPath_rejected_before_any_process:
  "\<exists>issues. issues \<noteq> [] \<and> hd issues = Issue too_small [js ''repoPath''] \<and>
     CallTool run (tool_request (Some (bag(js ''repoPath'' \<mapsto> JStr [])))) s
     = (Inl (ZodError issues), s)"
proof -
  let ?bag = "bag(js ''repoPath'' \<mapsto> JStr [])"
  have "parse_repoPath (?bag (js ''repoPath'')) = Inl [Issue too_small [js ''repoPath'']]"
    by (simp add: parse_repoPath_def)
  from schema_rejects_path [of ?bag, OF this] show ?thesis
    by (simp add: CallTool_invalid)
qed

section \<open>After a positive probe\<close>



lemma prefix_same_length: "prefix xs ys \<Longrightarrow> length xs = length ys \<Longrightarrow> xs = ys"
  by (auto simp: prefix_def)

text \<open>
  C5. Every process the handler starts is \<open>git\<close> with an argument vector: the processes
  started by one call are an initial part of probe, branch, commits, diffstat, in this order,
  and in each vector the validated path is the one element after \<open>-C\<close>, whatever characters
  it holds. The other elements are constants, and the decimal count for \<open>log -n\<close>.
\<close>

theorem invocations_use_argument_vectors:
  assumes "GitContextSchema_parse (arguments (params request)) = Inr a"
  shows "take (length (spawned s)) (spawned (snd (CallTool run request s))) = spawned s \<and>
         prefix (drop (length (spawned s)) (spawned (snd (CallTool run request s))))
           [ \<lparr> program = js ''git'',
               args = [js ''-C'', repoPath a, js ''rev-parse'', js ''--is-inside-work-tree''] \<rparr>,
             \<lparr> program = js ''git'',
               args = [js ''-C'', repoPath a, js ''rev-parse'', js ''--abbrev-ref'', js ''HEAD''] \<rparr>,
             \<lparr> program = js ''git'',
               args = [js ''-C'', repoPath a, js ''log'', js ''-n'', String (maxCommits a),
                       js ''--pretty=format:%h %s''] \<rparr>,
             \<lparr> program = js ''git'',
               args = [js ''-C'', repoPath a, js ''show'', js ''--stat'', js ''--oneline'',
                       js ''-1''] \<rparr> ]"
  using assms
  by (simp add: CallTool_def exec_outcome_fst probe_args_def branch_args_def
        commits_args_def diffstat_args_def split: exec_outcome.split)

theorem invocations_use_argument_vectors_witness:
  "spawned (snd (CallTool
      (\<lambda>i w. (Fulfilled \<lparr> stdout = js ''true'' @ [10], stderr = [] \<rparr>, Suc w))
      (tool_request (Some [js ''repoPath'' \<mapsto> JStr (js ''/tmp/my repo; rm -rf $HOME'')]))
      \<lparr> world = 0, spawned = [] \<rparr>))
   = [ \<lparr> program = js ''git'',
         args = [js ''-C'', js ''/tmp/my repo; rm -rf $HOME'', js ''rev-parse'',
                 js ''--is-inside-work-tree''] \<rparr>,
       \<lparr> program = js ''git'',
         args = [js ''-C'', js ''/tmp/my repo; rm -rf $HOME'', js ''rev-parse'',
                 js ''--abbrev-ref'', js ''HEAD''] \<rparr>,
       \<lparr> program = js ''git'',
         args = [js ''-C'', js ''/tmp/my repo; rm -rf $HOME'', js ''log'', js ''-n'',
                 js ''15'', js ''--pretty=format:%h %s''] \<rparr>,
       \<lparr> program = js ''git'',
         args = [js ''-C'', js ''/tmp/my repo; rm -rf $HOME'', js ''show'', js ''--stat'',
                 js ''--oneline'', js ''-1''] \<rparr> ]"
proof -
  let ?run = "\<lambda>(i::invocation) (w::nat).
                (Fulfilled \<lparr> stdout = js ''true'' @ [10], stderr = [] \<rparr>, Suc w)"
  let ?p = "js ''/tmp/my repo; rm -rf $HOME''"
  let ?req = "tool_request (Some [js ''repoPath'' \<mapsto> JStr ?p])"
  let ?a = "\<lparr> repoPath = ?p, maxCommits = 15 \<rparr>"
  let ?s = "\<lparr> world = 0::nat, spawned = [] \<rparr>"
  have h: "GitContextSchema_parse (arguments (params ?req)) = Inr ?a"
    by (simp add: parse_default_count js_neq_keys js_def)
  have len: "length (spawned (snd (CallTool ?run ?req ?s))) = 4"
    using h
    by (simp add: CallTool_def exec_outcome_fst isRepo_of_def trim_true_line)
  from invocations_use_argument_vectors
         [where request = ?req and a = ?a and run = ?run and s = ?s, OF h]
  have "prefix (spawned (snd (CallTool ?run ?req ?s)))
          [ \<lparr> program = js ''git'',
              args = [js ''-C'', ?p, js ''rev-parse'', js ''--is-inside-work-tree''] \<rparr>,
            \<lparr> program = js ''git'',
              args = [js ''-C'', ?p, js ''rev-parse'', js ''--abbrev-ref'', js ''HEAD''] \<rparr>,
            \<lparr> program = js ''git'',
              args = [js ''-C'', ?p, js ''log'', js ''-n'', String 15,
                      js ''--pretty=format:%h %s''] \<rparr>,
            \<lparr> program = js ''git'',
              args = [js ''-C'', ?p, js ''show'', js ''--stat'', js ''--oneline'', js ''-1''] \<rparr> ]"
    by simp
  from prefix_same_length [OF this] len show ?thesis
    by (simp add: String_15)
qed

section \<open>The assembled text\<close>



section \<open>Unrecognised keys and repeated calls\<close>

text \<open>
  C7. Take any argument bag, and remove from it every key but \<open>repoPath\<close> and \<open>maxCommits\<close>.
  If the stripped bag is valid, the full bag is valid with the same typed arguments, and the
  call on the full bag returns the same result and leaves the same process state as the call
  on the stripped bag: the extra keys are dropped, not rejected.
\<close>

theorem unrecognized_keys_are_stripped:
  assumes "GitContextSchema_parse (Some (bag |` {js ''repoPath'', js ''maxCommits''})) = Inr a"
  shows "GitContextSchema_parse (Some bag) = Inr a \<and>
         CallTool run (tool_request (Some bag)) s
         = CallTool run (tool_request (Some (bag |` {js ''repoPath'', js ''maxCommits''}))) s"
  using assms by (simp add: parse_restrict CallTool_def)

theorem unrecognized_keys_are_stripped_witness:
  "GitContextSchema_parse
     (Some [js ''repoPath'' \<mapsto> JStr (js ''/repo''), js ''verbose'' \<mapsto> JBool True,
            js ''depth'' \<mapsto> JNum (Finite 3)])
   = Inr \<lparr> repoPath = js ''/repo'', maxCommits = 15 \<rparr>
   \<and> CallTool (\<lambda>i w. (Fulfilled \<lparr> stdout = js ''true'' @ [10], stderr = [] \<rparr>, Suc w))
       (tool_request
          (Some [js ''repoPath'' \<mapsto> JStr (js ''/repo''), js ''verbose'' \<mapsto> JBool True,
                 js ''depth'' \<mapsto> JNum (Finite 3)]))
       \<lparr> world = 0, spawned = [] \<rparr>
     = CallTool (\<lambda>i w. (Fulfilled \<lparr> stdout = js ''true'' @ [10], stderr = [] \<rparr>, Suc w))
       (tool_request
          (Some ([js ''repoPath'' \<mapsto> JStr (js ''/repo''), js ''verbose'' \<mapsto> JBool True,
                  js ''depth'' \<mapsto> JNum (Finite 3)] |` {js ''repoPath'', js ''maxCommits''})))
       \<lparr> world = 0, spawned = [] \<rparr>"
proof -
  let ?bag = "[js ''repoPath'' \<mapsto> JStr (js ''/repo''), js ''verbose'' \<mapsto> JBool True,
               js ''depth'' \<mapsto> JNum (Finite 3)]"
  have "GitContextSchema_parse (Some ?bag) = Inr \<lparr> repoPath = js ''/repo'', maxCommits = 15 \<rparr>"
    by (rule parse_default_count) (simp_all add: js_def)
  then have h: "GitContextSchema_parse (Some (?bag |` {js ''repoPath'', js ''maxCommits''}))
                = Inr \<lparr> repoPath = js ''/repo'', maxCommits = 15 \<rparr>"
    by (simp only: parse_restrict)
  show ?thesis
    by (rule unrecognized_keys_are_stripped [where bag = ?bag, OF h])
qed

text \<open>
  C8. When the answer of every invocation does not depend on the state of the world (the
  repository is unchanged between and during the calls), a second call with the same request,
  made in the state the first call left behind, returns the same result as the first: the
  result is a function of the request and of the answers alone.
\<close>

theorem repeated_call_same_content:
  assumes "\<forall>i w w'. fst (run i w) = fst (run i w')"
  shows "fst (CallTool run request (snd (CallTool run request s)))
         = fst (CallTool run request s)"
  using CallTool_result_world_independent [OF assms] by blast

theorem repeated_call_same_content_witness:
  "fst (CallTool
          (\<lambda>i w. (Fulfilled \<lparr> stdout = (if args i ! 2 = js ''log'' then js ''a1 one''
                                         else js ''true'' @ [10]),
                                stderr = [] \<rparr>, Suc w))
          (tool_request (Some [js ''repoPath'' \<mapsto> JStr (js ''/repo'')]))
          (snd (CallTool
                  (\<lambda>i w. (Fulfilled \<lparr> stdout = (if args i ! 2 = js ''log'' then js ''a1 one''
                                                else js ''true'' @ [10]),
                                        stderr = [] \<rparr>, Suc w))
                  (tool_request (Some [js ''repoPath'' \<mapsto> JStr (js ''/repo'')]))
                  \<lparr> world = 0, spawned = [] \<rparr>)))
   = fst (CallTool
            (\<lambda>i w. (Fulfilled \<lparr> stdout = (if args i ! 2 = js ''log'' then js ''a1 one''
                                           else js ''true'' @ [10]),
                                  stderr = [] \<rparr>, Suc w))
            (tool_request (Some [js ''repoPath'' \<mapsto> JStr (js ''/repo'')]))
            \<lparr> world = 0, spawned = [] \<rparr>)"
proof -
  let ?run = "\<lambda>(i::invocation) (w::nat).
                (Fulfilled \<lparr> stdout = (if args i ! 2 = js ''log'' then js ''a1 one''
                                       else js ''true'' @ [10]),
                              stderr = [] \<rparr>, Suc w)"
  have h: "\<forall>i w w'. fst (?run i w) = fst (?run i w')"
    by simp
  show ?thesis
    by (rule repeated_call_same_content [where run = ?run, OF h])
qed

section \<open>The mode of the prompt\<close>

text \<open>
  C4. Getting \<open>house_rules\<close> with an empty bag gives a text with the line \<open>Mode: general\<close>;
  with \<open>mode\<close> bound to the string \<open>review\<close> it gives a text with the line \<open>Mode: review\<close>.
  For any string \<open>m\<close> bound to \<open>mode\<close>, the text is a fixed beginning, a newline,
  \<open>Mode: \<close> followed by \<open>m\<close> unchanged, a newline, and a fixed end; when \<open>m\<close> holds no
  newline, \<open>Mode: m\<close> is one of the lines of the text.
\<close>

theorem house_rules_mode_line:
  "\<exists>pre post.
     (\<exists>t. GetPrompt (prompt_request (Some Map.empty)) = Inr (prompt_reply t)
          \<and> js ''Mode: general'' \<in> set (split_nl t))
   \<and> (\<forall>bag. \<exists>t. GetPrompt (prompt_request (Some (bag(js ''mode'' \<mapsto> JStr (js ''review'')))))
                   = Inr (prompt_reply t)
          \<and> js ''Mode: review'' \<in> set (split_nl t))
   \<and> (\<forall>bag m. \<exists>t. GetPrompt (prompt_request (Some (bag(js ''mode'' \<mapsto> JStr m))))
                   = Inr (prompt_reply t)
          \<and> t = pre @ [10] @ js ''Mode: '' @ m @ [10] @ post
          \<and> (10 \<notin> set m \<longrightarrow> js ''Mode: '' @ m \<in> set (split_nl t)))"
proof (intro exI conjI allI)
  show "GetPrompt (prompt_request (Some Map.empty))
          = Inr (prompt_reply (join [10] (house_rules_lines (js ''general''))))"
    by (simp only: GetPrompt_house_rules prompt_mode_empty)
  show "js ''Mode: general'' \<in> set (split_nl (join [10] (house_rules_lines (js ''general''))))"
    using mode_line_present [OF general_no_newline] by (simp only: mode_general)
next
  fix bag :: "jsstring \<rightharpoonup> json"
  show "GetPrompt (prompt_request (Some (bag(js ''mode'' \<mapsto> JStr (js ''review'')))))
          = Inr (prompt_reply (join [10] (house_rules_lines (js ''review''))))"
    by (simp only: GetPrompt_house_rules prompt_mode_string)
  show "js ''Mode: review'' \<in> set (split_nl (join [10] (house_rules_lines (js ''review''))))"
    using mode_line_present [OF review_no_newline] by (simp only: mode_review)
next
  fix bag :: "jsstring \<rightharpoonup> json" and m :: jsstring
  show "GetPrompt (prompt_request (Some (bag(js ''mode'' \<mapsto> JStr m))))
          = Inr (prompt_reply (join [10] (house_rules_lines m)))"
    by (simp only: GetPrompt_house_rules prompt_mode_string)
  show "join [10] (house_rules_lines m) =
     join [10] (take 9 (house_rules_lines [])) @ [10] @ js ''Mode: '' @ m @ [10]
     @ join [10] (drop 10 (house_rules_lines []))"
    by (rule house_rules_text_shape)
  show "10 \<notin> set m \<longrightarrow> js ''Mode: '' @ m \<in> set (split_nl (join [10] (house_rules_lines m)))"
    by (simp add: mode_line_present)
qed

theorem house_rules_mode_line_witness:
  "\<exists>t. GetPrompt (prompt_request (Some [js ''mode'' \<mapsto> JStr (js ''triage'')]))
          = Inr (prompt_reply t)
       \<and> js ''Mode: triage'' \<in> set (split_nl t)"
proof -
  from house_rules_mode_line obtain pre post where
    "\<forall>bag m. \<exists>t. GetPrompt (prompt_request (Some (bag(js ''mode'' \<mapsto> JStr m))))
                   = Inr (prompt_reply t)
          \<and> t = pre @ [10] @ js ''Mode: '' @ m @ [10] @ post
          \<and> (10 \<notin> set m \<longrightarrow> js ''Mode: '' @ m \<in> set (split_nl t))"
    by blast
  then obtain t where
    t: "GetPrompt (prompt_request (Some (Map.empty(js ''mode'' \<mapsto> JStr (js ''triage'')))))
          = Inr (prompt_reply t)"
       "10 \<notin> set (js ''triage'') \<longrightarrow> js ''Mode: '' @ js ''triage'' \<in> set (split_nl t)"
    by blast
  have "10 \<notin> set (js ''triage'')"
    by (simp add: js_def)
  with t(2) have "js ''Mode: triage'' \<in> set (split_nl t)"
    by (simp add: js_def)
  with t(1) show ?thesis
    by blast
qed

section \<open>A mode that is not a string\<close>

lemma argument_issue_non_string:
  "\<forall>m. v \<noteq> JStr m \<Longrightarrow>
   argument_issue (k, v) = [Issue invalid_type [js ''params'', js ''arguments'', k]]"
  by (cases v) (simp_all add: argument_issue_def)

lemma record_of_strings_no_issue:
  "\<forall>kv\<in>set kvs. \<exists>m. snd kv = JStr m \<Longrightarrow> concat (map argument_issue kvs) = []"
  by (induction kvs) (auto simp: argument_issue_def)

lemma prompts_get_well_typed:
  "\<forall>kv\<in>set kvs. \<exists>m. snd kv = JStr m \<Longrightarrow>
   prompts_get n (Some kvs) = GetPrompt \<lparr> params = \<lparr> name = n, arguments = Some (map_of kvs) \<rparr> \<rparr>"
  by (simp add: prompts_get_def GetPromptRequestSchema_parse_def record_of_strings_no_issue)

lemma prompt_mode_absent: "bag (js ''mode'') = None \<Longrightarrow> prompt_mode (Some bag) = js ''general''"
  by (simp add: prompt_mode_def)

text \<open>
  Behind the schema, a bag of strings reaches the handler body unchanged, so a string \<open>mode\<close>
  without a newline gives its line through the installed handler as well.
\<close>

lemma prompts_get_mode_line:
  assumes "\<forall>kv\<in>set kvs. \<exists>m. snd kv = JStr m"
    and "map_of kvs (js ''mode'') = Some (JStr m)"
    and "10 \<notin> set m"
  shows "\<exists>t. prompts_get (js ''house_rules'') (Some kvs) = Inr (prompt_reply t)
            \<and> js ''Mode: '' @ m \<in> set (split_nl t)"
proof -
  have "prompt_mode (Some (map_of kvs)) = m"
    using assms(2) by (simp add: prompt_mode_def)
  then have "prompts_get (js ''house_rules'') (Some kvs)
        = Inr (prompt_reply (join [10] (house_rules_lines m)))"
    using assms(1) by (simp add: prompts_get_well_typed GetPrompt_house_rules)
  with mode_line_present [OF assms(3)] show ?thesis
    by blast
qed

text \<open>
  C9. The claim is that a \<open>mode\<close> which is present but not a string produces no validation
  error and is answered with \<open>Mode: general\<close>. The handler is installed behind
  \<open>GetPromptRequestSchema\<close>, whose argument bag is a record of strings: with \<open>mode\<close> bound
  to the number 3 the request is refused with a \<open>ZodError\<close>, an \<open>invalid_type\<close> issue at
  \<open>params.arguments.mode\<close>, and the handler body does not run.
\<close>

theorem non_string_mode_counterexample:
  "prompts_get (js ''house_rules'') (Some [(js ''mode'', JNum (Finite 3))])
   = Inl (ZodError [Issue invalid_type [js ''params'', js ''arguments'', js ''mode'']])"
  by (simp add: prompts_get_def GetPromptRequestSchema_parse_def argument_issue_def)

text \<open>
  C9, as amended. A \<open>prompts/get\<close> request in which \<open>mode\<close> is present but is not a string
  is refused by the request schema with a validation error that has an \<open>invalid_type\<close>
  issue at \<open>params.arguments.mode\<close>; no content is returned. The fallback of the handler
  body is reached when \<open>mode\<close> is absent: a \<open>house_rules\<close> request whose bag holds only
  strings and no \<open>mode\<close> is answered with a text that has the line \<open>Mode: general\<close>.
\<close>

theorem non_string_mode_rejected_by_request_schema:
  "((js ''mode'', v) \<in> set kvs \<and> (\<forall>m. v \<noteq> JStr m) \<longrightarrow>
      (\<exists>issues. Issue invalid_type [js ''params'', js ''arguments'', js ''mode''] \<in> set issues
         \<and> prompts_get n (Some kvs) = Inl (ZodError issues)))
   \<and> ((\<forall>kv\<in>set kvs'. \<exists>m. snd kv = JStr m) \<and> js ''mode'' \<notin> fst ` set kvs' \<longrightarrow>
      (\<exists>t. prompts_get (js ''house_rules'') (Some kvs') = Inr (prompt_reply t)
         \<and> js ''Mode: general'' \<in> set (split_nl t)))"
proof (intro conjI impI)
  assume h: "(js ''mode'', v) \<in> set kvs \<and> (\<forall>m. v \<noteq> JStr m)"
  let ?i = "Issue invalid_type [js ''params'', js ''arguments'', js ''mode'']"
  let ?issues = "concat (map argument_issue kvs)"
  have "argument_issue (js ''mode'', v) = [?i]"
    using h by (simp add: argument_issue_non_string)
  then have mem: "?i \<in> set ?issues"
    using h by force
  then have "?issues \<noteq> []"
    by (cases ?issues) simp_all
  then have "prompts_get n (Some kvs) = Inl (ZodError ?issues)"
    by (auto simp: prompts_get_def GetPromptRequestSchema_parse_def)
  with mem show "\<exists>issues. ?i \<in> set issues \<and> prompts_get n (Some kvs) = Inl (ZodError issues)"
    by blast
next
  assume h: "(\<forall>kv\<in>set kvs'. \<exists>m. snd kv = JStr m) \<and> js ''mode'' \<notin> fst ` set kvs'"
  then have absent: "map_of kvs' (js ''mode'') = None"
    by (simp add: map_of_eq_None_iff)
  have "prompts_get (js ''house_rules'') (Some kvs')
        = GetPrompt (prompt_request (Some (map_of kvs')))"
    using h by (simp add: prompts_get_well_typed)
  also have "\<dots> = Inr (prompt_reply (join [10] (house_rules_lines (js ''general''))))"
    by (simp only: GetPrompt_house_rules prompt_mode_absent [where bag = "map_of kvs'", OF absent])
  finally have r: "prompts_get (js ''house_rules'') (Some kvs')
        = Inr (prompt_reply (join [10] (house_rules_lines (js ''general''))))" .
  have "js ''Mode: general'' \<in> set (split_nl (join [10] (house_rules_lines (js ''general''))))"
    using mode_line_present [OF general_no_newline] by (simp only: mode_general)
  with r show "\<exists>t. prompts_get (js ''house_rules'') (Some kvs') = Inr (prompt_reply t)
         \<and> js ''Mode: general'' \<in> set (split_nl t)"
    by blast
qed

theorem non_string_mode_rejected_by_request_schema_witness:
  "(\<exists>issues. Issue invalid_type [js ''params'', js ''arguments'', js ''mode''] \<in> set issues
      \<and> prompts_get (js ''house_rules'')
           (Some [(js ''topic'', JStr (js ''git'')), (js ''mode'', JBool True)])
         = Inl (ZodError issues))
   \<and> (\<exists>t. prompts_get (js ''house_rules'') (Some [(js ''topic'', JStr (js ''git''))])
            = Inr (prompt_reply t)
          \<and> js ''Mode: general'' \<in> set (split_nl t))"
proof -
  let ?kvs = "[(js ''topic'', JStr (js ''git'')), (js ''mode'', JBool True)]"
  let ?kvs' = "[(js ''topic'', JStr (js ''git''))]"
  have h1: "(js ''mode'', JBool True) \<in> set ?kvs \<and> (\<forall>m. JBool True \<noteq> JStr m)"
    by simp
  have h2: "(\<forall>kv\<in>set ?kvs'. \<exists>m. snd kv = JStr m) \<and> js ''mode'' \<notin> fst ` set ?kvs'"
    by (simp add: js_def)
  note T = non_string_mode_rejected_by_request_schema
             [where v = "JBool True" and kvs = ?kvs and n = "js ''house_rules''" and kvs' = ?kvs']
  show ?thesis
    using T h1 h2 by blast
qed

end
